theory Spec2Isabelle
  imports Complex_Main "HOL-Library.Word"
begin

section \<open>Strings of the host language\<close>

text \<open>
  A JavaScript string is a sequence of UTF-16 code units, and \<open>length\<close>, \<open>trim\<close> and the
  regular expressions of \<open>studyPlanService.ts\<close> all work on code units. A character outside
  the Basic Multilingual Plane (the emoji of the fallback texts) is two code units, written
  here as its surrogate pair. \<open>str\<close> embeds an ASCII literal.
\<close>

type_synonym code_unit = "16 word"
type_synonym jsstring = "code_unit list"

definition str :: "string \<Rightarrow> jsstring" where
  "str s = map of_char s"

text \<open>
  \<open>String.prototype.trim\<close> removes WhiteSpace and LineTerminator code points from both ends;
  the class escape \<open>\s\<close> of a regular expression denotes the same set: TAB, LF, VT, FF, CR,
  SPACE, NBSP, U+1680, U+2000..U+200A, U+2028, U+2029, U+202F, U+205F, U+3000 and U+FEFF.
\<close>

definition isWhiteSpace :: "code_unit \<Rightarrow> bool" where
  "isWhiteSpace c \<longleftrightarrow>
     c = 0x09 \<or> c = 0x0A \<or> c = 0x0B \<or> c = 0x0C \<or> c = 0x0D \<or> c = 0x20 \<or> c = 0xA0 \<or>
     c = 0x1680 \<or> (0x2000 \<le> c \<and> c \<le> 0x200A) \<or> c = 0x2028 \<or> c = 0x2029 \<or>
     c = 0x202F \<or> c = 0x205F \<or> c = 0x3000 \<or> c = 0xFEFF"

definition trim :: "jsstring \<Rightarrow> jsstring" where
  "trim s = rev (dropWhile isWhiteSpace (rev (dropWhile isWhiteSpace s)))"

text \<open>\<open>Array.prototype.join\<close> on an array of strings.\<close>

fun join :: "jsstring \<Rightarrow> jsstring list \<Rightarrow> jsstring" where
  "join sep [] = []"
| "join sep [x] = x"
| "join sep (x # y # ys) = x @ sep @ join sep (y # ys)"

text \<open>
  Case-insensitive matching (flag \<open>i\<close>, no flag \<open>u\<close>) compares the upper-case forms of single
  code units, and never lets a code unit of 128 or more match an ASCII one. Against the
  ASCII pattern characters used in this file it is therefore ASCII case folding.
\<close>

definition canonicalize :: "code_unit \<Rightarrow> code_unit" where
  "canonicalize c = (if 0x61 \<le> c \<and> c \<le> 0x7A then c - 0x20 else c)"

definition fence :: jsstring where
  "fence = [0x60, 0x60, 0x60]"

text \<open>\<open>text.replace(/^```json\s*/i, '')\<close>\<close>

definition replaceLeadingJsonFence :: "jsstring \<Rightarrow> jsstring" where
  "replaceLeadingJsonFence s =
     (if 7 \<le> length s \<and> take 3 s = fence \<and>
         map canonicalize (take 4 (drop 3 s)) = map canonicalize (str ''json'')
      then dropWhile isWhiteSpace (drop 7 s) else s)"

text \<open>\<open>text.replace(/^```\s*/i, '')\<close>\<close>

definition replaceLeadingFence :: "jsstring \<Rightarrow> jsstring" where
  "replaceLeadingFence s =
     (if 3 \<le> length s \<and> take 3 s = fence then dropWhile isWhiteSpace (drop 3 s) else s)"

text \<open>
  \<open>text.replace(/```$/i, '')\<close>: without the flag \<open>m\<close> the anchor \<open>$\<close> is the end of the
  input, so the only place the pattern can match is the last three code units.
\<close>

definition replaceTrailingFence :: "jsstring \<Rightarrow> jsstring" where
  "replaceTrailingFence s =
     (if 3 \<le> length s \<and> drop (length s - 3) s = fence then take (length s - 3) s else s)"

text \<open>
  Lines 58-59 and 250-251: \<open>let text = content.trim(); text = text.replace(...).replace(...)
  .replace(...).trim()\<close>.
\<close>

definition stripCodeFence :: "jsstring \<Rightarrow> jsstring" where
  "stripCodeFence text =
     trim (replaceTrailingFence (replaceLeadingFence (replaceLeadingJsonFence text)))"

definition cleanContent :: "jsstring \<Rightarrow> jsstring" where
  "cleanContent content = stripCodeFence (trim content)"

section \<open>JSON values and \<open>JSON.parse\<close>\<close>

text \<open>
  The values the platform's \<open>JSON.parse\<close> and \<open>response.json()\<close> produce. An object keeps
  its members in source order, duplicates included; a property read takes the last one, as
  the later definition of a property overwrites the earlier. A number carries the exact
  decimal value of its literal (the platform rounds it to the nearest double, which is not
  modelled).
\<close>

datatype json =
    JNull
  | JBool bool
  | JNumber rat
  | JString jsstring
  | JArray "json list"
  | JObject "(jsstring \<times> json) list"

text \<open>
  \<open>JSON.parse\<close> raises SyntaxError (here \<open>None\<close>) on any text that is not one JSON value
  surrounded by optional JSON white space (TAB, LF, CR, SPACE). It is modelled in two total
  passes: a tokenizer, and a pushdown automaton over the tokens.
\<close>

datatype token =
    TLBrace | TRBrace | TLBracket | TRBracket | TColon | TComma
  | TString jsstring | TNumber rat | TTrue | TFalse | TNull

definition isDigit :: "code_unit \<Rightarrow> bool" where
  "isDigit c \<longleftrightarrow> 0x30 \<le> c \<and> c \<le> 0x39"

definition hexValue :: "code_unit \<Rightarrow> code_unit option" where
  "hexValue c =
     (if 0x30 \<le> c \<and> c \<le> 0x39 then Some (c - 0x30)
      else if 0x41 \<le> c \<and> c \<le> 0x46 then Some (c - 0x37)
      else if 0x61 \<le> c \<and> c \<le> 0x66 then Some (c - 0x57)
      else None)"

definition hex4 :: "code_unit \<Rightarrow> code_unit \<Rightarrow> code_unit \<Rightarrow> code_unit \<Rightarrow> code_unit option" where
  "hex4 a b c d =
     (case (hexValue a, hexValue b, hexValue c, hexValue d) of
        (Some x, Some y, Some z, Some w) \<Rightarrow> Some (x * 0x1000 + y * 0x100 + z * 0x10 + w)
      | _ \<Rightarrow> None)"

text \<open>The character after a backslash in a string literal.\<close>

definition unescape :: "code_unit \<Rightarrow> code_unit option" where
  "unescape e =
     (if e = 0x22 \<or> e = 0x5C \<or> e = 0x2F then Some e
      else if e = 0x62 then Some 0x08
      else if e = 0x66 then Some 0x0C
      else if e = 0x6E then Some 0x0A
      else if e = 0x72 then Some 0x0D
      else if e = 0x74 then Some 0x09
      else None)"

text \<open>
  The rest of a string literal after its opening quote: the decoded string and the text
  after the closing quote. Raw control characters below U+0020 are not allowed.
\<close>

fun lexString :: "jsstring \<Rightarrow> jsstring \<Rightarrow> (jsstring \<times> jsstring) option" where
  "lexString acc [] = None"
| "lexString acc (c # cs) =
     (if c = 0x22 then Some (rev acc, cs)
      else if c = 0x5C then
        (case cs of
           [] \<Rightarrow> None
         | e # cs' \<Rightarrow>
             if e = 0x75 then
               (case cs' of
                  h1 # h2 # h3 # h4 # cs'' \<Rightarrow>
                    (case hex4 h1 h2 h3 h4 of
                       None \<Rightarrow> None
                     | Some u \<Rightarrow> lexString (u # acc) cs'')
                | _ \<Rightarrow> None)
             else
               (case unescape e of
                  None \<Rightarrow> None
                | Some u \<Rightarrow> lexString (u # acc) cs'))
      else if c < 0x20 then None
      else lexString (c # acc) cs)"

lemma lexString_rest: "lexString acc cs = Some (s, rest) \<Longrightarrow> length rest < length cs"
proof (induction acc cs arbitrary: s rest rule: lexString.induct)
  case (1 acc)
  then show ?case by simp
next
  case (2 acc c cs)
  show ?case
  proof (cases "c = 0x22")
    case True
    with "2.prems" show ?thesis by simp
  next
    case nq: False
    show ?thesis
    proof (cases "c = 0x5C")
      case False
      with nq "2.prems" have "lexString (c # acc) cs = Some (s, rest)"
        by (simp split: if_splits)
      with "2.IH"(3) [OF nq False] nq False "2.prems" show ?thesis
        by (fastforce split: if_splits)
    next
      case bs: True
      then obtain e cs' where cs: "cs = e # cs'"
        using "2.prems" nq by (cases cs) auto
      show ?thesis
      proof (cases "e = 0x75")
        case True
        then obtain h1 h2 h3 h4 cs'' u where
          *: "cs' = h1 # h2 # h3 # h4 # cs''" "hex4 h1 h2 h3 h4 = Some u"
             "lexString (u # acc) cs'' = Some (s, rest)"
          using "2.prems" nq bs cs by (auto split: list.splits option.splits)
        from "2.IH"(1) [OF nq bs cs True *(1) refl refl refl *(2) *(3)]
        show ?thesis using cs * by simp
      next
        case False
        then obtain u where
          *: "unescape e = Some u" "lexString (u # acc) cs' = Some (s, rest)"
          using "2.prems" nq bs cs by (auto split: option.splits)
        from "2.IH"(2) [OF nq bs cs False *(1) *(2)]
        show ?thesis using cs by simp
      qed
    qed
  qed
qed


text \<open>
  A number literal is \<open>-? (0 | [1-9][0-9]*) (. [0-9]+)? ([eE] [+-]? [0-9]+)?\<close>. The
  characters that can occur in one cannot follow a complete value, so the tokenizer takes
  the longest run of them and checks the run against the grammar.
\<close>

definition digitsValue :: "jsstring \<Rightarrow> nat" where
  "digitsValue ds = foldl (\<lambda>a c. 10 * a + unat (c - 0x30)) 0 ds"

definition isNumberChar :: "code_unit \<Rightarrow> bool" where
  "isNumberChar c \<longleftrightarrow> isDigit c \<or> c = 0x2B \<or> c = 0x2D \<or> c = 0x2E \<or> c = 0x45 \<or> c = 0x65"

definition stripMinus :: "jsstring \<Rightarrow> bool \<times> jsstring" where
  "stripMinus s = (case s of c # r \<Rightarrow> if c = 0x2D then (True, r) else (False, s) | [] \<Rightarrow> (False, []))"

definition parseFraction :: "jsstring \<Rightarrow> (jsstring \<times> jsstring) option" where
  "parseFraction s =
     (case s of
        c # r \<Rightarrow>
          if c = 0x2E then
            (if takeWhile isDigit r = [] then None
             else Some (takeWhile isDigit r, dropWhile isDigit r))
          else Some ([], s)
      | [] \<Rightarrow> Some ([], []))"

definition parseExponent :: "jsstring \<Rightarrow> int option" where
  "parseExponent s =
     (case s of
        [] \<Rightarrow> Some 0
      | c # r \<Rightarrow>
          if c = 0x45 \<or> c = 0x65 then
            (case r of
               [] \<Rightarrow> None
             | g # ds \<Rightarrow>
                 if g = 0x2B then (if ds \<noteq> [] \<and> list_all isDigit ds then Some (int (digitsValue ds)) else None)
                 else if g = 0x2D then (if ds \<noteq> [] \<and> list_all isDigit ds then Some (- int (digitsValue ds)) else None)
                 else (if list_all isDigit r then Some (int (digitsValue r)) else None))
          else None)"

definition scale10 :: "rat \<Rightarrow> int \<Rightarrow> rat" where
  "scale10 m e = (if 0 \<le> e then m * 10 ^ nat e else m / 10 ^ nat (- e))"

definition parseNumber :: "jsstring \<Rightarrow> rat option" where
  "parseNumber s =
     (let (neg, s1) = stripMinus s;
          ip = takeWhile isDigit s1;
          s2 = dropWhile isDigit s1
      in if ip = [] \<or> (1 < length ip \<and> hd ip = 0x30) then None
         else
           (case parseFraction s2 of
              None \<Rightarrow> None
            | Some (fp, s3) \<Rightarrow>
                (case parseExponent s3 of
                   None \<Rightarrow> None
                 | Some e \<Rightarrow>
                     let m = of_nat (digitsValue (ip @ fp))
                     in Some (scale10 (if neg then - m else m) (e - int (length fp))))))"

function tokenize :: "jsstring \<Rightarrow> token list option" where
  "tokenize [] = Some []"
| "tokenize (c # cs) =
     (if c = 0x09 \<or> c = 0x0A \<or> c = 0x0D \<or> c = 0x20 then tokenize cs
      else if c = 0x7B then map_option ((#) TLBrace) (tokenize cs)
      else if c = 0x7D then map_option ((#) TRBrace) (tokenize cs)
      else if c = 0x5B then map_option ((#) TLBracket) (tokenize cs)
      else if c = 0x5D then map_option ((#) TRBracket) (tokenize cs)
      else if c = 0x3A then map_option ((#) TColon) (tokenize cs)
      else if c = 0x2C then map_option ((#) TComma) (tokenize cs)
      else if c = 0x22 then
        (case lexString [] cs of
           None \<Rightarrow> None
         | Some (s, rest) \<Rightarrow> map_option ((#) (TString s)) (tokenize rest))
      else if c = 0x2D \<or> isDigit c then
        (case parseNumber (c # takeWhile isNumberChar cs) of
           None \<Rightarrow> None
         | Some r \<Rightarrow> map_option ((#) (TNumber r)) (tokenize (dropWhile isNumberChar cs)))
      else if take 4 (c # cs) = str ''true'' then map_option ((#) TTrue) (tokenize (drop 3 cs))
      else if take 5 (c # cs) = str ''false'' then map_option ((#) TFalse) (tokenize (drop 4 cs))
      else if take 4 (c # cs) = str ''null'' then map_option ((#) TNull) (tokenize (drop 3 cs))
      else None)"
  by pat_completeness auto
termination
proof (relation "measure length", goal_cases)
  case 1
  show ?case by simp
next
  case (9 c cs x2 x y)
  then show ?case using lexString_rest [of "[]" cs x y] by simp
next
  case (10 c cs x2)
  show ?case using length_dropWhile_le [of isNumberChar cs] by simp
qed simp_all

text \<open>
  The open containers, innermost first: an array with its elements so far (latest first),
  an object with its members so far, and an object member whose value is awaited.
\<close>

datatype frame =
    FArray "json list"
  | FObject "(jsstring \<times> json) list"
  | FMember "(jsstring \<times> json) list" jsstring

datatype mode = ExpectValue | ExpectValueOrClose | ExpectKeyOrClose | ExpectKey | ExpectColon
  | AfterValue | Done json

fun complete :: "json \<Rightarrow> frame list \<Rightarrow> (frame list \<times> mode) option" where
  "complete v [] = Some ([], Done v)"
| "complete v (FArray es # st) = Some (FArray (v # es) # st, AfterValue)"
| "complete v (FMember en k # st) = Some (FObject ((k, v) # en) # st, AfterValue)"
| "complete v (FObject en # st) = None"

fun startValue :: "token \<Rightarrow> frame list \<Rightarrow> (frame list \<times> mode) option" where
  "startValue (TString s) st = complete (JString s) st"
| "startValue (TNumber r) st = complete (JNumber r) st"
| "startValue TTrue st = complete (JBool True) st"
| "startValue TFalse st = complete (JBool False) st"
| "startValue TNull st = complete JNull st"
| "startValue TLBracket st = Some (FArray [] # st, ExpectValueOrClose)"
| "startValue TLBrace st = Some (FObject [] # st, ExpectKeyOrClose)"
| "startValue _ st = None"

fun startKey :: "token \<Rightarrow> frame list \<Rightarrow> (frame list \<times> mode) option" where
  "startKey (TString k) (FObject en # st) = Some (FMember en k # st, ExpectColon)"
| "startKey _ _ = None"

fun step :: "frame list \<times> mode \<Rightarrow> token \<Rightarrow> (frame list \<times> mode) option" where
  "step (st, ExpectValue) t = startValue t st"
| "step (FArray [] # st, ExpectValueOrClose) TRBracket = complete (JArray []) st"
| "step (st, ExpectValueOrClose) t = startValue t st"
| "step (FObject [] # st, ExpectKeyOrClose) TRBrace = complete (JObject []) st"
| "step (st, ExpectKeyOrClose) t = startKey t st"
| "step (st, ExpectKey) t = startKey t st"
| "step (st, ExpectColon) TColon = Some (st, ExpectValue)"
| "step (FArray es # st, AfterValue) TComma = Some (FArray es # st, ExpectValue)"
| "step (FArray es # st, AfterValue) TRBracket = complete (JArray (rev es)) st"
| "step (FObject en # st, AfterValue) TComma = Some (FObject en # st, ExpectKey)"
| "step (FObject en # st, AfterValue) TRBrace = complete (JObject (rev en)) st"
| "step _ _ = None"

fun parseTokens :: "frame list \<times> mode \<Rightarrow> token list \<Rightarrow> json option" where
  "parseTokens (st, m) [] = (case (st, m) of ([], Done v) \<Rightarrow> Some v | _ \<Rightarrow> None)"
| "parseTokens s (t # ts) = (case step s t of None \<Rightarrow> None | Some s' \<Rightarrow> parseTokens s' ts)"

definition JSON_parse :: "jsstring \<Rightarrow> json option" where
  "JSON_parse text = (case tokenize text of None \<Rightarrow> None | Some ts \<Rightarrow> parseTokens ([], ExpectValue) ts)"

section \<open>Reading the response envelope\<close>

text \<open>
  \<open>None\<close> is \<open>undefined\<close>. \<open>v?.name\<close> for the names \<open>choices\<close>, \<open>message\<close> and \<open>content\<close>:
  only an object can have such a member, since no built-in prototype defines one; on
  \<open>null\<close> and \<open>undefined\<close> the optional chain yields \<open>undefined\<close>.
\<close>

definition optionalMember :: "json option \<Rightarrow> jsstring \<Rightarrow> json option" where
  "optionalMember v name =
     (case v of Some (JObject members) \<Rightarrow> map_of (rev members) name | _ \<Rightarrow> None)"

text \<open>
  \<open>v?.[0]\<close>: the first element of an array, the first code unit of a string, the member
  \<open>"0"\<close> of an object.
\<close>

definition optionalIndex0 :: "json option \<Rightarrow> json option" where
  "optionalIndex0 v =
     (case v of
        Some (JArray (x # xs)) \<Rightarrow> Some x
      | Some (JString (c # cs)) \<Rightarrow> Some (JString [c])
      | Some (JObject members) \<Rightarrow> map_of (rev members) (str ''0'')
      | _ \<Rightarrow> None)"

text \<open>\<open>data?.choices?.[0]?.message?.content\<close>\<close>

definition messageContent :: "json \<Rightarrow> json option" where
  "messageContent data =
     optionalMember
       (optionalMember (optionalIndex0 (optionalMember (Some data) (str ''choices'')))
          (str ''message''))
       (str ''content'')"

text \<open>ToBoolean, as the condition of \<open>if\<close> applies it.\<close>

fun truthy :: "json option \<Rightarrow> bool" where
  "truthy None = False"
| "truthy (Some JNull) = False"
| "truthy (Some (JBool b)) = b"
| "truthy (Some (JNumber r)) = (r \<noteq> 0)"
| "truthy (Some (JString s)) = (s \<noteq> [])"
| "truthy (Some (JArray xs)) = True"
| "truthy (Some (JObject members)) = True"

section \<open>Errors, requests and the observable trace\<close>

text \<open>
  What can be thrown inside the module: \<open>new Error('Chapter not found')\<close>, the rejection
  of \<open>fetch\<close>, the rejection of \<open>response.json()\<close>, the TypeError of calling \<open>trim\<close> on a
  value that has no such method, and the SyntaxError of \<open>JSON.parse\<close>.
\<close>

datatype error = ChapterNotFound | FetchRejected | BodyNotJson | TrimNotAFunction | SyntaxError

definition GROQ_PROXY_URL :: jsstring where
  "GROQ_PROXY_URL = str ''http://localhost:3001/api/groq-chat''"

definition MODEL_NAME :: jsstring where
  "MODEL_NAME = str ''openai/gpt-oss-20b''"

text \<open>The argument of \<open>fetch\<close>; \<open>payload\<close> is the value handed to \<open>JSON.stringify\<close>.\<close>

record request =
  url :: jsstring
  http_method :: jsstring
  headers :: "(jsstring \<times> jsstring) list"
  payload :: json

definition chatRequest :: "jsstring \<Rightarrow> request" where
  "chatRequest prompt =
     \<lparr> url = GROQ_PROXY_URL,
       http_method = str ''POST'',
       headers = [(str ''Content-Type'', str ''application/json'')],
       payload = JObject
         [(str ''model'', JString MODEL_NAME),
          (str ''messages'',
             JArray [JObject [(str ''role'', JString (str ''user'')),
                              (str ''content'', JString prompt)]])] \<rparr>"

text \<open>
  The endpoint is the environment: \<open>fetch\<close> either rejects or resolves to a response with
  its \<open>ok\<close> flag and what \<open>response.json()\<close> yields (\<open>None\<close> when that rejects).
\<close>

datatype fetch_outcome = Rejected | Response bool "json option"

type_synonym endpoint = "request \<Rightarrow> fetch_outcome"

datatype event = Fetch request | ConsoleError jsstring error

text \<open>
  \<open>Math.random()\<close> returns a number that is at least 0 and less than 1.
\<close>

typedef random01 = "{r :: rat. 0 \<le> r \<and> r < 1}"
  by (rule exI [of _ 0]) simp

section \<open>The data model\<close>

text \<open>
  \<open>Chapter\<close> and \<open>DiagnosticResult\<close> are declared in \<open>../types\<close>; the fields are the ones
  the service reads. \<open>score\<close> and \<open>total_questions\<close> are counts, modelled as integers; the
  chapter catalogue \<open>chapters.json\<close> is a parameter of the operations that use it.
\<close>

record Chapter =
  id' :: jsstring
  chapter' :: jsstring
  topics :: "jsstring list"

record DiagnosticResult =
  strengths :: "jsstring list"
  weaknesses :: "jsstring list"
  gaps :: "jsstring list"
  score :: int
  total_questions :: int

datatype level = Beginner | Intermediate | Advanced

fun levelString :: "level \<Rightarrow> jsstring" where
  "levelString Beginner = str ''beginner''"
| "levelString Intermediate = str ''intermediate''"
| "levelString Advanced = str ''advanced''"

text \<open>
  ToString of an integer-valued number (below \<open>10^21\<close> in magnitude, where the platform
  prints all digits).
\<close>

fun showNat :: "nat \<Rightarrow> jsstring" where
  "showNat n = (if n < 10 then [0x30 + of_nat n] else showNat (n div 10) @ [0x30 + of_nat (n mod 10)])"

declare showNat.simps [simp del]

definition showInt :: "int \<Rightarrow> jsstring" where
  "showInt i = (if i < 0 then 0x2D # showNat (nat (- i)) else showNat (nat i))"

text \<open>
  The quotient of two integer-valued numbers: division by zero does not raise, it yields
  \<open>NaN\<close> or an infinity, and every comparison with \<open>NaN\<close> is false. A finite quotient is
  kept exact. The platform rounds it, and the literal \<open>0.7\<close>, to the nearest double; for
  counts below \<open>10^15\<close> the rounded comparison \<open>score / total_questions >= 0.7\<close> has the
  same outcome as the exact one, since a quotient below \<open>7/10\<close> is below it by at least
  \<open>1 / (10 * total_questions)\<close>, more than the rounding moves either side.
\<close>

datatype number = NaN | PosInfinity | NegInfinity | Finite rat

definition quotient :: "int \<Rightarrow> int \<Rightarrow> number" where
  "quotient a b =
     (if b = 0 then (if a = 0 then NaN else if 0 < a then PosInfinity else NegInfinity)
      else Finite (of_int a / of_int b))"

fun greaterEq :: "number \<Rightarrow> rat \<Rightarrow> bool" where
  "greaterEq NaN c = False"
| "greaterEq PosInfinity c = True"
| "greaterEq NegInfinity c = False"
| "greaterEq (Finite q) c = (c \<le> q)"

definition unlines :: "jsstring list \<Rightarrow> jsstring" where
  "unlines ls = join [0x0A] ls"

section \<open>\<open>generatePersonalizedStudyPlan\<close>\<close>

text \<open>The template literal of lines 18-41.\<close>

definition studyPlanPrompt :: "Chapter \<Rightarrow> jsstring \<Rightarrow> DiagnosticResult \<Rightarrow> jsstring" where
  \<open>studyPlanPrompt ch chapterId diagnosticResult = unlines
     [str ''Create a personalized study plan for this student based on their diagnostic results.'',
      str '''',
      str ''Chapter: '' @ chapter' ch,
      str ''Topics: '' @ join (str '', '') (topics ch),
      str ''Student's Strengths: '' @ join (str '', '') (strengths diagnosticResult),
      str ''Student's Weaknesses: '' @ join (str '', '') (weaknesses diagnosticResult),
      str ''Student's Gaps: '' @ join (str '', '') (gaps diagnosticResult),
      str ''Diagnostic Score: '' @ showInt (score diagnosticResult) @ str ''/''
        @ showInt (total_questions diagnosticResult),
      str '''',
      str ''Generate a study plan as JSON with this structure:'',
      str ''{'',
      str ''  "chapter_id": "'' @ chapterId @ str ''",'',
      str ''  "prerequisites": ["concept1", "concept2"],'',
      str ''  "recommended_practice": ["practice1", "practice2", "practice3"],'',
      str ''  "estimated_time": 120,'',
      str ''  "difficulty_level": "beginner"'',
      str ''}'',
      str '''',
      str ''Prerequisites should be concepts the student needs to review first.'',
      str ''Recommended practice should be specific, actionable study activities.'',
      str ''Estimated time should be in minutes for completing this chapter.'',
      str ''Difficulty level should be "beginner", "intermediate", or "advanced" based on student's readiness.'',
      str '''',
      str ''Return only the JSON object.'']\<close>

text \<open>
  Lines 54-64, the part of the \<open>try\<close> block after \<open>fetch\<close> has settled: \<open>Inl e\<close> is the
  exception \<open>e\<close> thrown inside the block, \<open>Inr (Some v)\<close> is \<open>return v\<close>, and \<open>Inr None\<close>
  is leaving the block without returning.
\<close>

definition studyPlanAttempt :: "fetch_outcome \<Rightarrow> error + json option" where
  "studyPlanAttempt outcome =
     (case outcome of
        Rejected \<Rightarrow> Inl FetchRejected
      | Response ok body \<Rightarrow>
          if ok then
            (case body of
               None \<Rightarrow> Inl BodyNotJson
             | Some data \<Rightarrow>
                 if truthy (messageContent data) then
                   (case messageContent data of
                      Some (JString content) \<Rightarrow>
                        (case JSON_parse (cleanContent content) of
                           None \<Rightarrow> Inl SyntaxError
                         | Some studyPlan \<Rightarrow> Inr (Some studyPlan))
                    | _ \<Rightarrow> Inl TrimNotAFunction)
                 else Inr None)
          else Inr None)"

text \<open>Lines 69-89, the object literal the function returns when the \<open>try\<close> block did not.\<close>

definition fallbackStudyPlan :: "jsstring \<Rightarrow> DiagnosticResult \<Rightarrow> json" where
  "fallbackStudyPlan chapterId diagnosticResult =
     (let prerequisites =
            (if 0 < length (gaps diagnosticResult) then take 3 (gaps diagnosticResult)
             else [str ''Basic arithmetic'', str ''Number concepts'']);
          difficultyLevel =
            (if greaterEq (quotient (score diagnosticResult) (total_questions diagnosticResult)) (7 / 10)
             then str ''intermediate'' else str ''beginner'')
      in JObject
           [(str ''chapter_id'', JString chapterId),
            (str ''prerequisites'', JArray (map JString prerequisites)),
            (str ''recommended_practice'', JArray (map JString
               [str ''Complete 10 practice problems daily'',
                str ''Review concept explanations'',
                str ''Take mini-quizzes to test understanding'',
                str ''Practice with real-world examples''])),
            (str ''estimated_time'',
               JNumber (if difficultyLevel = str ''beginner'' then 180 else 120)),
            (str ''difficulty_level'', JString difficultyLevel)])"

text \<open>
  The whole operation: the value returned or the error thrown to the caller, and the trace
  of requests sent and errors logged. \<open>userProgress\<close> is not read.
\<close>

definition generatePersonalizedStudyPlan ::
  "endpoint \<Rightarrow> Chapter list \<Rightarrow> jsstring \<Rightarrow> DiagnosticResult \<Rightarrow> json
     \<Rightarrow> (error + json) \<times> event list" where
  "generatePersonalizedStudyPlan fetch chaptersData chapterId diagnosticResult userProgress =
     (case find (\<lambda>c. id' c = chapterId) chaptersData of
        None \<Rightarrow> (Inl ChapterNotFound, [])
      | Some ch \<Rightarrow>
          (let req = chatRequest (studyPlanPrompt ch chapterId diagnosticResult)
           in case studyPlanAttempt (fetch req) of
                Inr (Some studyPlan) \<Rightarrow> (Inr studyPlan, [Fetch req])
              | Inr None \<Rightarrow>
                  (Inr (fallbackStudyPlan chapterId diagnosticResult), [Fetch req])
              | Inl e \<Rightarrow>
                  (Inr (fallbackStudyPlan chapterId diagnosticResult),
                   [Fetch req, ConsoleError (str ''Error generating study plan:'') e])))"

section \<open>\<open>generateChapterExplanation\<close> and \<open>generateSmartNotification\<close>\<close>

text \<open>
  Lines 125-131 and, with the same text, lines 181-187: the free-text operations return
  \<open>content.trim()\<close>.
\<close>

definition freeTextAttempt :: "fetch_outcome \<Rightarrow> error + jsstring option" where
  "freeTextAttempt outcome =
     (case outcome of
        Rejected \<Rightarrow> Inl FetchRejected
      | Response ok body \<Rightarrow>
          if ok then
            (case body of
               None \<Rightarrow> Inl BodyNotJson
             | Some data \<Rightarrow>
                 if truthy (messageContent data) then
                   (case messageContent data of
                      Some (JString content) \<Rightarrow> Inr (Some (trim content))
                    | _ \<Rightarrow> Inl TrimNotAFunction)
                 else Inr None)
          else Inr None)"

definition explanationPrompt :: "jsstring \<Rightarrow> level \<Rightarrow> jsstring" where
  "explanationPrompt topic studentLevel = unlines
     [str ''You are a friendly math mentor explaining '' @ topic @ str '' to a ''
        @ levelString studentLevel @ str '' student. '',
      str '''',
      str ''Create an engaging, interactive explanation that:'',
      str ''- Uses simple, clear language'',
      str ''- Includes fun analogies and examples'',
      str ''- Uses emojis naturally'',
      str ''- Feels like a conversation with a helpful friend'',
      str ''- Never mentions being an AI'',
      str ''- Includes practical examples'',
      str ''- Makes the concept feel approachable and interesting'',
      str '''',
      str ''Keep it concise but comprehensive. Make the student feel excited about learning this topic!'',
      str '''',
      str ''Topic: '' @ topic,
      str ''Student Level: '' @ levelString studentLevel]"

definition fallbackExplanation :: "jsstring \<Rightarrow> jsstring" where
  "fallbackExplanation topic = unlines
     [str ''Let's explore '' @ topic @ str '' together! '' @ [0xD83C, 0xDF1F],
      str '''',
      str ''This is an important concept that will help you understand mathematics better. Think of it as building blocks - each piece helps you construct something amazing!'',
      str '''',
      str ''We'll start with the basics and gradually build up your understanding. Don't worry if it seems challenging at first - that's completely normal! '' @ [0xD83D, 0xDCAA],
      str '''',
      str ''Remember: every expert was once a beginner. You're on an exciting journey of discovery! '' @ [0xD83D, 0xDE80]]"

definition generateChapterExplanation ::
  "endpoint \<Rightarrow> jsstring \<Rightarrow> jsstring \<Rightarrow> level \<Rightarrow> jsstring \<times> event list" where
  "generateChapterExplanation fetch chapterId topic studentLevel =
     (let req = chatRequest (explanationPrompt topic studentLevel)
      in case freeTextAttempt (fetch req) of
           Inr (Some text) \<Rightarrow> (text, [Fetch req])
         | Inr None \<Rightarrow> (fallbackExplanation topic, [Fetch req])
         | Inl e \<Rightarrow>
             (fallbackExplanation topic,
              [Fetch req, ConsoleError (str ''Error generating explanation:'') e]))"

definition notificationPrompt :: "jsstring list \<Rightarrow> jsstring" where
  \<open>notificationPrompt recentActivity = unlines
     [str ''Generate a motivational, personalized notification for a student based on their progress.'',
      str '''',
      str ''Recent Activity: '' @ join (str '', '') recentActivity,
      str ''Progress Info: Strong areas, areas for improvement, recent achievements'',
      str '''',
      str ''Create a short, encouraging message that:'',
      str ''- Celebrates their progress'',
      str ''- Provides specific next steps'',
      str ''- Uses emojis appropriately'',
      str ''- Feels personal and motivating'',
      str ''- Is under 100 characters'',
      str ''- Never mentions being AI'',
      str '''',
      str ''Examples:'',
      str ''"Amazing work on Algebra! '' @ [0xD83D, 0xDE80] @ str '' Ready to tackle Geometry next?"'',
      str ''"Great streak! '' @ [0xD83D, 0xDD25] @ str '' Try the Number Systems quiz to keep momentum going!"'',
      str '''',
      str ''Return just the notification text.'']\<close>

definition fallbackNotifications :: "jsstring list" where
  "fallbackNotifications =
     [str ''You're making great progress! '' @ [0xD83C, 0xDF1F] @ str '' Keep up the amazing work!'',
      str ''Ready for your next challenge? '' @ [0xD83D, 0xDE80] @ str '' Let's keep learning!'',
      str ''Fantastic effort today! '' @ [0xD83D, 0xDCAA] @ str '' Tomorrow brings new discoveries!'',
      str ''You're on fire! '' @ [0xD83D, 0xDD25] @ str '' Your dedication is paying off!'']"

text \<open>
  Line 200: \<open>fallbackNotifications[Math.floor(Math.random() * fallbackNotifications.length)]\<close>.
  The product with the length is exact, and below the length, so the index is in range.
\<close>

definition randomIndex :: "random01 \<Rightarrow> nat \<Rightarrow> nat" where
  "randomIndex random n = nat \<lfloor>Rep_random01 random * of_nat n\<rfloor>"

definition pickFallbackNotification :: "random01 \<Rightarrow> jsstring" where
  "pickFallbackNotification random =
     fallbackNotifications ! randomIndex random (length fallbackNotifications)"

definition generateSmartNotification ::
  "endpoint \<Rightarrow> random01 \<Rightarrow> json \<Rightarrow> jsstring list \<Rightarrow> jsstring \<times> event list" where
  "generateSmartNotification fetch random userProgress recentActivity =
     (let req = chatRequest (notificationPrompt recentActivity)
      in case freeTextAttempt (fetch req) of
           Inr (Some text) \<Rightarrow> (text, [Fetch req])
         | Inr None \<Rightarrow> (pickFallbackNotification random, [Fetch req])
         | Inl e \<Rightarrow>
             (pickFallbackNotification random,
              [Fetch req, ConsoleError (str ''Error generating notification:'') e]))"

section \<open>\<open>generatePersonalizedStudyContent\<close>\<close>

text \<open>\<open>a || b\<close> on strings: the empty string is the only falsy one.\<close>

definition orElse :: "jsstring \<Rightarrow> jsstring \<Rightarrow> jsstring" where
  "orElse a b = (if a \<noteq> [] then a else b)"

definition studyContentPrompt ::
  "jsstring \<Rightarrow> level \<Rightarrow> jsstring list \<Rightarrow> jsstring list \<Rightarrow> jsstring" where
  \<open>studyContentPrompt chapterName userLevel userWeaknesses userStrengths = unlines
     [str ''You are a friendly math mentor creating personalized study content for a student.'',
      str '''',
      str ''Chapter: '' @ chapterName,
      str ''Student Level: '' @ levelString userLevel,
      str ''Student's Strengths: ''
        @ orElse (join (str '', '') userStrengths) (str ''Building foundation''),
      str ''Student's Weaknesses: ''
        @ orElse (join (str '', '') userWeaknesses) (str ''None identified''),
      str '''',
      str ''Create personalized study content for 4 key topics in this chapter. Return as JSON object:'',
      str ''{'',
      str ''  "Introduction": "Engaging introduction content...",'',
      str ''  "Core Concepts": "Core concepts explanation...",'',
      str ''  "Problem Solving": "Problem solving strategies...",'',
      str ''  "Practice & Review": "Practice and review guidance..."'',
      str ''}'',
      str '''',
      str ''Each content section should:'',
      str ''- Be 2-3 paragraphs long'',
      str ''- Use encouraging, mentor-like tone'',
      str ''- Address student's specific level and needs'',
      str ''- Include practical examples and analogies'',
      str ''- Use emojis naturally'',
      str ''- Build confidence while being educational'',
      str ''- Reference their strengths and help with weaknesses'',
      str '''',
      str ''Return only the JSON object.'']\<close>

text \<open>
  Lines 246-259. The inner \<open>try\<close> around \<open>JSON.parse\<close> catches the SyntaxError, logs it and
  lets control leave the outer block.
\<close>

definition studyContentAttempt :: "fetch_outcome \<Rightarrow> (error + json option) \<times> event list" where
  "studyContentAttempt outcome =
     (case outcome of
        Rejected \<Rightarrow> (Inl FetchRejected, [])
      | Response ok body \<Rightarrow>
          if ok then
            (case body of
               None \<Rightarrow> (Inl BodyNotJson, [])
             | Some data \<Rightarrow>
                 if truthy (messageContent data) then
                   (case messageContent data of
                      Some (JString content) \<Rightarrow>
                        (case JSON_parse (cleanContent content) of
                           None \<Rightarrow>
                             (Inr None,
                              [ConsoleError (str ''Error parsing study content JSON:'') SyntaxError])
                         | Some parsed \<Rightarrow> (Inr (Some parsed), []))
                    | _ \<Rightarrow> (Inl TrimNotAFunction, []))
                 else (Inr None, []))
          else (Inr None, []))"

definition paragraphBreak :: jsstring where
  "paragraphBreak = [0x0A, 0x0A]"

definition fallbackStudyContent :: "jsstring \<Rightarrow> jsstring list \<Rightarrow> jsstring list \<Rightarrow> json" where
  "fallbackStudyContent chapterName userWeaknesses userStrengths =
     JObject
       [(str ''Introduction'', JString
           (str ''Welcome to '' @ chapterName @ str ''! '' @ [0xD83C, 0xDF1F] @ paragraphBreak
            @ str ''This chapter will build on your existing knowledge and introduce exciting new concepts. ''
            @ (if 0 < length userStrengths
               then str ''Your strength in '' @ hd userStrengths @ str '' will be very helpful here!''
               else str ''We'll start with the basics and build up your understanding step by step.'')
            @ paragraphBreak
            @ str ''Get ready for an amazing learning adventure! '' @ [0xD83D, 0xDE80])),
        (str ''Core Concepts'', JString
           (str ''Let's dive into the heart of '' @ chapterName @ str ''! '' @ [0xD83D, 0xDCA1]
            @ paragraphBreak
            @ str ''We'll explore the fundamental ideas that make this topic so important in mathematics. ''
            @ (if 0 < length userWeaknesses
               then str ''Don't worry about '' @ hd userWeaknesses @ str '' - we'll work on that together!''
               else str ''You're well-prepared for these concepts!'')
            @ paragraphBreak
            @ str ''Remember, every expert was once a beginner. Take your time and enjoy the process! ''
            @ [0xD83D, 0xDCDA])),
        (str ''Problem Solving'', JString
           (str ''Now for the exciting part - solving problems! '' @ [0xD83C, 0xDFAF] @ paragraphBreak
            @ str ''We'll learn strategies and techniques that will make you confident in tackling any question. Practice makes perfect, and every mistake is a learning opportunity.''
            @ paragraphBreak
            @ str ''You've got this! Let's turn challenges into victories! '' @ [0xD83D, 0xDCAA])),
        (str ''Practice & Review'', JString
           (str ''Time to reinforce your learning! '' @ [0x2B50] @ paragraphBreak
            @ str ''Regular practice and review will help cement these concepts in your mind. ''
            @ (if 0 < length userStrengths
               then str ''Use your strength in '' @ hd userStrengths @ str '' to build confidence!''
               else str ''Focus on understanding rather than memorizing.'')
            @ paragraphBreak
            @ str ''Celebrate every small win - you're making amazing progress! '' @ [0xD83C, 0xDF89]))]"

definition generatePersonalizedStudyContent ::
  "endpoint \<Rightarrow> jsstring \<Rightarrow> jsstring \<Rightarrow> level \<Rightarrow> jsstring list \<Rightarrow> jsstring list
     \<Rightarrow> json \<times> event list" where
  "generatePersonalizedStudyContent fetch chapterId chapterName userLevel userWeaknesses userStrengths =
     (let req = chatRequest (studyContentPrompt chapterName userLevel userWeaknesses userStrengths)
      in case studyContentAttempt (fetch req) of
           (Inr (Some parsed), logged) \<Rightarrow> (parsed, Fetch req # logged)
         | (Inr None, logged) \<Rightarrow>
             (fallbackStudyContent chapterName userWeaknesses userStrengths, Fetch req # logged)
         | (Inl e, logged) \<Rightarrow>
             (fallbackStudyContent chapterName userWeaknesses userStrengths,
              Fetch req # logged
                @ [ConsoleError (str ''Error generating personalized study content:'') e]))"

section \<open>Vocabulary of the properties\<close>

text \<open>
  What the endpoint delivered: the content string when \<open>fetch\<close> resolved, the status was a
  success, the body was JSON and \<open>choices[0].message.content\<close> is a non-empty string; \<open>None\<close>
  for every other outcome (network error, non-success status, body that is not JSON,
  missing, empty or non-string content).
\<close>

definition deliveredContent :: "fetch_outcome \<Rightarrow> jsstring option" where
  "deliveredContent outcome =
     (case outcome of
        Rejected \<Rightarrow> None
      | Response ok body \<Rightarrow>
          if ok then
            (case body of
               None \<Rightarrow> None
             | Some data \<Rightarrow>
                 (case messageContent data of
                    Some (JString content) \<Rightarrow> if content \<noteq> [] then Some content else None
                  | _ \<Rightarrow> None))
          else None)"

definition constantEndpoint :: "fetch_outcome \<Rightarrow> endpoint" where
  "constantEndpoint outcome req = outcome"

definition field :: "json \<Rightarrow> jsstring \<Rightarrow> json option" where
  "field v name = optionalMember (Some v) name"

definition hasPositiveTime :: "json \<Rightarrow> bool" where
  "hasPositiveTime plan =
     (case field plan (str ''estimated_time'') of Some (JNumber t) \<Rightarrow> 0 < t | _ \<Rightarrow> False)"

definition hasKnownDifficulty :: "json \<Rightarrow> bool" where
  "hasKnownDifficulty plan =
     (case field plan (str ''difficulty_level'') of
        Some (JString d) \<Rightarrow> d = str ''beginner'' \<or> d = str ''intermediate'' \<or> d = str ''advanced''
      | _ \<Rightarrow> False)"

definition exampleChapter :: Chapter where
  "exampleChapter = \<lparr>id' = str ''ch1'', chapter' = str ''Division'', topics = [str ''Long division'']\<rparr>"

definition exampleDiagnostic :: DiagnosticResult where
  "exampleDiagnostic =
     \<lparr>strengths = [], weaknesses = [str ''fractions''],
      gaps = [str ''long division'', str ''carrying''], score = 3, total_questions = 10\<rparr>"

text \<open>A success envelope: \<open>{"choices": [{"message": {"content": c}}]}\<close>.\<close>

definition envelope :: "jsstring \<Rightarrow> json" where
  "envelope c =
     JObject [(str ''choices'',
       JArray [JObject [(str ''message'', JObject [(str ''content'', JString c)])]])]"

text \<open>
  What the generated path of a structured operation returns, when it returns: the content
  the endpoint delivered, cleaned and parsed.
\<close>

definition generatedValue :: "fetch_outcome \<Rightarrow> json option" where
  "generatedValue outcome =
     (case deliveredContent outcome of
        None \<Rightarrow> None
      | Some content \<Rightarrow> JSON_parse (cleanContent content))"

text \<open>Two contents an endpoint can deliver: prose, and a plan outside the data model.\<close>

definition chatter :: jsstring where
  "chatter = str ''Sure! Here is your plan''"

definition lenientPlan :: jsstring where
  \<open>lenientPlan = str ''{"estimated_time": 0, "difficulty_level": "expert"}''\<close>




text \<open>Further inputs for the examples.\<close>

definition fencedGreeting :: jsstring where
  "fencedGreeting = str ''```hi```''"

definition paddedGreeting :: jsstring where
  "paddedGreeting = str ''  Keep going!  ''"


definition emptyDiagnostic :: DiagnosticResult where
  "emptyDiagnostic =
     \<lparr>strengths = [], weaknesses = [], gaps = [], score = 3, total_questions = 10\<rparr>"

section \<open>The paths through the operations\<close>

lemma studyPlanAttempt_failed:
  "deliveredContent outcome = None \<Longrightarrow> studyPlanAttempt outcome \<noteq> Inr (Some v)"
  by (auto simp: deliveredContent_def studyPlanAttempt_def
      split: fetch_outcome.splits option.splits json.splits if_splits)

lemma studyPlanAttempt_delivered:
  "deliveredContent outcome = Some content \<Longrightarrow>
   studyPlanAttempt outcome =
     (case JSON_parse (cleanContent content) of None \<Rightarrow> Inl SyntaxError | Some v \<Rightarrow> Inr (Some v))"
  by (auto simp: deliveredContent_def studyPlanAttempt_def
      split: fetch_outcome.splits option.splits json.splits if_splits)

lemma plan_fallback_when_failed:
  assumes "find (\<lambda>c. id' c = chapterId) chaptersData = Some ch"
    and "deliveredContent (fetch (chatRequest (studyPlanPrompt ch chapterId dr))) = None"
  shows "fst (generatePersonalizedStudyPlan fetch chaptersData chapterId dr up) =
           Inr (fallbackStudyPlan chapterId dr)"
  using assms studyPlanAttempt_failed [of "fetch (chatRequest (studyPlanPrompt ch chapterId dr))"]
  by (auto simp: generatePersonalizedStudyPlan_def Let_def split: sum.splits option.splits)




lemma messageContent_envelope: "messageContent (envelope c) = Some (JString c)"
  by (simp add: messageContent_def envelope_def optionalMember_def optionalIndex0_def)

lemma deliveredContent_envelope:
  "deliveredContent (Response True (Some (envelope c))) = (if c \<noteq> [] then Some c else None)"
  by (simp add: deliveredContent_def messageContent_envelope)

lemma fallback_field_difficulty:
  "field (fallbackStudyPlan chapterId dr) (str ''difficulty_level'') =
     Some (JString (if greaterEq (quotient (score dr) (total_questions dr)) (7 / 10)
                    then str ''intermediate'' else str ''beginner''))"
  by (simp add: field_def optionalMember_def fallbackStudyPlan_def Let_def str_def)

lemma fallback_field_time:
  "field (fallbackStudyPlan chapterId dr) (str ''estimated_time'') =
     Some (JNumber (if greaterEq (quotient (score dr) (total_questions dr)) (7 / 10)
                    then 120 else 180))"
  by (simp add: field_def optionalMember_def fallbackStudyPlan_def Let_def str_def)

lemma fallback_valid:
  "hasPositiveTime (fallbackStudyPlan chapterId dr)"
  "hasKnownDifficulty (fallbackStudyPlan chapterId dr)"
  by (simp_all add: hasPositiveTime_def hasKnownDifficulty_def fallback_field_time
      fallback_field_difficulty)

lemma plan_fallback_when_unparsable:
  assumes "find (\<lambda>c. id' c = chapterId) chaptersData = Some ch"
    and "deliveredContent (fetch (chatRequest (studyPlanPrompt ch chapterId dr))) = Some content"
    and "JSON_parse (cleanContent content) = None"
  shows "generatePersonalizedStudyPlan fetch chaptersData chapterId dr up =
           (Inr (fallbackStudyPlan chapterId dr),
            [Fetch (chatRequest (studyPlanPrompt ch chapterId dr)),
             ConsoleError (str ''Error generating study plan:'') SyntaxError])"
  using assms(1,3) studyPlanAttempt_delivered [OF assms(2)]
  by (simp add: generatePersonalizedStudyPlan_def Let_def)

lemma plan_generated_when_parsable:
  assumes "find (\<lambda>c. id' c = chapterId) chaptersData = Some ch"
    and "deliveredContent (fetch (chatRequest (studyPlanPrompt ch chapterId dr))) = Some content"
    and "JSON_parse (cleanContent content) = Some v"
  shows "generatePersonalizedStudyPlan fetch chaptersData chapterId dr up =
           (Inr v, [Fetch (chatRequest (studyPlanPrompt ch chapterId dr))])"
  using assms(1,3) studyPlanAttempt_delivered [OF assms(2)]
  by (simp add: generatePersonalizedStudyPlan_def Let_def)

lemma plan_error_only_not_found:
  assumes "fst (generatePersonalizedStudyPlan fetch chaptersData chapterId dr up) = Inl e"
  shows "e = ChapterNotFound \<and> find (\<lambda>c. id' c = chapterId) chaptersData = None"
  using assms
  by (auto simp: generatePersonalizedStudyPlan_def Let_def split: option.splits sum.splits)

lemma studyContentAttempt_delivered:
  "deliveredContent outcome = Some content \<Longrightarrow>
   studyContentAttempt outcome =
     (case JSON_parse (cleanContent content) of
        None \<Rightarrow> (Inr None, [ConsoleError (str ''Error parsing study content JSON:'') SyntaxError])
      | Some v \<Rightarrow> (Inr (Some v), []))"
  by (auto simp: deliveredContent_def studyContentAttempt_def
      split: fetch_outcome.splits option.splits json.splits if_splits)

lemma content_fallback_when_unparsable:
  assumes "deliveredContent (fetch (chatRequest (studyContentPrompt name lvl ws ss))) = Some content"
    and "JSON_parse (cleanContent content) = None"
  shows "generatePersonalizedStudyContent fetch chapterId name lvl ws ss =
           (fallbackStudyContent name ws ss,
            [Fetch (chatRequest (studyContentPrompt name lvl ws ss)),
             ConsoleError (str ''Error parsing study content JSON:'') SyntaxError])"
  using assms(2) studyContentAttempt_delivered [OF assms(1)]
  by (simp add: generatePersonalizedStudyContent_def Let_def)

lemma chatter_not_json: "JSON_parse (cleanContent chatter) = None"
  unfolding chatter_def by code_simp

lemma lenientPlan_parses:
  "JSON_parse (cleanContent lenientPlan) =
     Some (JObject [(str ''estimated_time'', JNumber 0),
                    (str ''difficulty_level'', JString (str ''expert''))])"
  unfolding lenientPlan_def by code_simp

lemma delivered_constant:
  "c \<noteq> [] \<Longrightarrow> deliveredContent (constantEndpoint (Response True (Some (envelope c))) req) = Some c"
  by (simp add: constantEndpoint_def deliveredContent_envelope)

lemma chatter_nonempty: "chatter \<noteq> []" and lenientPlan_nonempty: "lenientPlan \<noteq> []"
  by (simp_all add: chatter_def lenientPlan_def str_def)

lemma generatedValue_rejected: "generatedValue (constantEndpoint Rejected req) = None"
  by (simp add: generatedValue_def constantEndpoint_def deliveredContent_def)

lemma generatedValue_lenient:
  "generatedValue (constantEndpoint (Response True (Some (envelope lenientPlan))) req) =
     Some (JObject [(str ''estimated_time'', JNumber 0),
                    (str ''difficulty_level'', JString (str ''expert''))])"
  by (simp add: generatedValue_def delivered_constant [OF lenientPlan_nonempty] lenientPlan_parses)

lemma freeTextAttempt_failed:
  "deliveredContent outcome = None \<Longrightarrow> freeTextAttempt outcome \<noteq> Inr (Some t)"
  by (auto simp: deliveredContent_def freeTextAttempt_def
      split: fetch_outcome.splits option.splits json.splits if_splits)

lemma freeTextAttempt_delivered:
  "deliveredContent outcome = Some content \<Longrightarrow> freeTextAttempt outcome = Inr (Some (trim content))"
  by (auto simp: deliveredContent_def freeTextAttempt_def
      split: fetch_outcome.splits option.splits json.splits if_splits)

lemma notification_fallback_when_failed:
  assumes "deliveredContent (fetch (chatRequest (notificationPrompt recentActivity))) = None"
  shows "fst (generateSmartNotification fetch random up recentActivity) =
           pickFallbackNotification random"
  using freeTextAttempt_failed [OF assms]
  by (auto simp: generateSmartNotification_def Let_def split: sum.splits option.splits)

lemma length_fallbackNotifications: "length fallbackNotifications = 4"
  by (simp add: fallbackNotifications_def)

lemma randomIndex_iff:
  "randomIndex random 4 = i \<longleftrightarrow>
     of_nat i / 4 \<le> Rep_random01 random \<and> Rep_random01 random < (of_nat i + 1) / 4"
proof -
  have r: "0 \<le> Rep_random01 random" "Rep_random01 random < 1"
    using Rep_random01 [of random] by simp_all
  then have nonneg: "0 \<le> \<lfloor>Rep_random01 random * 4\<rfloor>"
    by simp
  have "randomIndex random 4 = i \<longleftrightarrow> \<lfloor>Rep_random01 random * 4\<rfloor> = int i"
    using nonneg by (auto simp: randomIndex_def)
  also have "\<dots> \<longleftrightarrow> of_int (int i) \<le> Rep_random01 random * 4
      \<and> Rep_random01 random * 4 < of_int (int i) + 1"
    by (rule floor_eq_iff)
  also have "\<dots> \<longleftrightarrow> of_nat i / 4 \<le> Rep_random01 random
      \<and> Rep_random01 random < (of_nat i + 1) / 4"
    by (simp add: field_simps)
  finally show ?thesis .
qed

lemma randomIndex_less: "randomIndex random 4 < 4"
proof -
  have "Rep_random01 random < 1" "0 \<le> Rep_random01 random"
    using Rep_random01 [of random] by simp_all
  then have "\<lfloor>Rep_random01 random * 4\<rfloor> < 4"
    by (simp add: floor_less_iff)
  then have "nat \<lfloor>Rep_random01 random * 4\<rfloor> < 4"
    by linarith
  then show ?thesis by (simp add: randomIndex_def)
qed

lemma pick_in_pool: "pickFallbackNotification random \<in> set fallbackNotifications"
  using randomIndex_less [of random]
  by (simp add: pickFallbackNotification_def length_fallbackNotifications)

lemma distinct_fallbackNotifications: "distinct fallbackNotifications"
  by (simp add: fallbackNotifications_def str_def)

lemma pool_lengths: "map length fallbackNotifications = [58, 54, 59, 49]"
  by (simp add: fallbackNotifications_def str_def)

lemma fencedGreeting_nonempty: "fencedGreeting \<noteq> []"
  by (simp add: fencedGreeting_def str_def)

lemma explanation_when_delivered:
  assumes "deliveredContent (fetch (chatRequest (explanationPrompt topic lvl))) = Some content"
  shows "generateChapterExplanation fetch chapterId topic lvl =
           (trim content, [Fetch (chatRequest (explanationPrompt topic lvl))])"
  using freeTextAttempt_delivered [OF assms]
  by (simp add: generateChapterExplanation_def Let_def)

lemma notification_when_delivered:
  assumes "deliveredContent (fetch (chatRequest (notificationPrompt recentActivity))) = Some content"
  shows "generateSmartNotification fetch random up recentActivity =
           (trim content, [Fetch (chatRequest (notificationPrompt recentActivity))])"
  using freeTextAttempt_delivered [OF assms]
  by (simp add: generateSmartNotification_def Let_def)

lemma paddedGreeting_nonempty: "paddedGreeting \<noteq> []"
  by (simp add: paddedGreeting_def str_def)

lemma Rep_three_tenths: "Rep_random01 (Abs_random01 (3 / 10)) = 3 / 10"
  by (simp add: Abs_random01_inverse)

section \<open>Trimming and fence stripping\<close>























lemma trim_fencedGreeting: "trim fencedGreeting = str ''```hi```''"
  unfolding fencedGreeting_def by code_simp

lemma clean_fencedGreeting: "cleanContent fencedGreeting = str ''hi''"
  unfolding fencedGreeting_def by code_simp

lemma trim_paddedGreeting: "trim paddedGreeting = str ''Keep going!''"
  unfolding paddedGreeting_def by code_simp

section \<open>The tokenizer, branch by branch\<close>








declare tokenize.simps [simp del]

section \<open>A backtick outside a string literal\<close>












section \<open>White space around a JSON text\<close>





















section \<open>The study-plan fallback\<close>



text \<open>
  Claim C6. In the fallback, when \<open>total_questions\<close> is 0 and the invariant
  \<open>0 \<le> score \<le> total_questions\<close> holds, the division does not fail: the quotient \<open>0 / 0\<close> is
  \<open>NaN\<close>, the comparison with 0.7 is false, and the plan has difficulty level \<open>beginner\<close>
  and estimated time 180.
\<close>

theorem zero_questions_fallback_is_beginner:
  assumes "find (\<lambda>c. id' c = chapterId) chaptersData = Some ch"
    and "deliveredContent (fetch (chatRequest (studyPlanPrompt ch chapterId dr))) = None"
    and "total_questions dr = 0"
    and "0 \<le> score dr" and "score dr \<le> total_questions dr"
  shows "quotient (score dr) (total_questions dr) = NaN
    \<and> (\<exists>plan. fst (generatePersonalizedStudyPlan fetch chaptersData chapterId dr userProgress)
            = Inr plan
          \<and> field plan (str ''difficulty_level'') = Some (JString (str ''beginner''))
          \<and> field plan (str ''estimated_time'') = Some (JNumber 180))"
proof -
  from assms(3-5) have zero: "score dr = 0" by simp
  with assms(3) have nan: "quotient (score dr) (total_questions dr) = NaN"
    by (simp add: quotient_def)
  then show ?thesis
    using plan_fallback_when_failed [where fetch = fetch, OF assms(1,2)]
    by (simp add: fallback_field_difficulty fallback_field_time)
qed

theorem zero_questions_fallback_is_beginner_witness:
  "find (\<lambda>c. id' c = str ''ch1'') [exampleChapter] = Some exampleChapter
   \<and> deliveredContent (constantEndpoint (Response False None)
         (chatRequest (studyPlanPrompt exampleChapter (str ''ch1'')
            (exampleDiagnostic\<lparr>score := 0, total_questions := 0\<rparr>)))) = None
   \<and> total_questions (exampleDiagnostic\<lparr>score := 0, total_questions := 0\<rparr>) = 0
   \<and> 0 \<le> score (exampleDiagnostic\<lparr>score := 0, total_questions := 0\<rparr>)
   \<and> score (exampleDiagnostic\<lparr>score := 0, total_questions := 0\<rparr>)
       \<le> total_questions (exampleDiagnostic\<lparr>score := 0, total_questions := 0\<rparr>)
   \<and> quotient 0 0 = NaN
   \<and> (\<exists>plan. fst (generatePersonalizedStudyPlan (constantEndpoint (Response False None))
              [exampleChapter] (str ''ch1'')
              (exampleDiagnostic\<lparr>score := 0, total_questions := 0\<rparr>) JNull) = Inr plan
          \<and> field plan (str ''difficulty_level'') = Some (JString (str ''beginner''))
          \<and> field plan (str ''estimated_time'') = Some (JNumber 180))"
proof -
  let ?dr = "exampleDiagnostic\<lparr>score := 0, total_questions := 0\<rparr>"
  have found: "find (\<lambda>c. id' c = str ''ch1'') [exampleChapter] = Some exampleChapter"
    by (simp add: exampleChapter_def)
  have failed: "deliveredContent (constantEndpoint (Response False None)
      (chatRequest (studyPlanPrompt exampleChapter (str ''ch1'') ?dr))) = None"
    by (simp add: constantEndpoint_def deliveredContent_def)
  have total: "total_questions ?dr = 0" and low: "0 \<le> score ?dr"
    and high: "score ?dr \<le> total_questions ?dr"
    by simp_all
  show ?thesis
    using found failed
      zero_questions_fallback_is_beginner
        [where fetch = "constantEndpoint (Response False None)" and userProgress = JNull,
         OF found failed total low high]
    by simp
qed

section \<open>The unknown chapter\<close>

text \<open>
  Claim C3. For a chapter id with no match in the catalogue,
  \<open>generatePersonalizedStudyPlan\<close> raises the chapter-not-found error, and its trace is
  empty: no request is sent to the endpoint and nothing is turned into a fallback.
\<close>

theorem unknown_chapter_raises_before_fetch:
  assumes "find (\<lambda>c. id' c = chapterId) chaptersData = None"
  shows "generatePersonalizedStudyPlan fetch chaptersData chapterId dr userProgress =
           (Inl ChapterNotFound, [])"
  using assms by (simp add: generatePersonalizedStudyPlan_def)

theorem unknown_chapter_raises_before_fetch_witness:
  "find (\<lambda>c. id' c = str ''ch9'') [exampleChapter] = None
   \<and> generatePersonalizedStudyPlan (constantEndpoint (Response True (Some (envelope (str ''{}'')))))
         [exampleChapter] (str ''ch9'') exampleDiagnostic JNull
     = (Inl ChapterNotFound, [])"
proof -
  have missing: "find (\<lambda>c. id' c = str ''ch9'') [exampleChapter] = None"
    by (simp add: exampleChapter_def str_def)
  show ?thesis
    using missing
      unknown_chapter_raises_before_fetch
        [where fetch = "constantEndpoint (Response True (Some (envelope (str ''{}''))))", OF missing]
    by simp
qed

section \<open>Errors that reach the caller\<close>

text \<open>
  Claim C2. When the endpoint delivers content that is not valid JSON, each structured
  operation returns its fallback value and logs the SyntaxError instead of raising it:
  \<open>generatePersonalizedStudyPlan\<close> through the \<open>catch\<close> of its \<open>try\<close> block,
  \<open>generatePersonalizedStudyContent\<close> through the inner \<open>catch\<close> around \<open>JSON.parse\<close>. The only
  error \<open>generatePersonalizedStudyPlan\<close> ever raises is chapter-not-found, and only when the
  catalogue has no such chapter; the other three operations return a value on every input
  (their result type has no error).
\<close>

theorem invalid_structured_content_is_absorbed:
  shows "(find (\<lambda>c. id' c = chapterId) chaptersData = Some ch
          \<and> deliveredContent (fetch (chatRequest (studyPlanPrompt ch chapterId dr))) = Some content
          \<and> JSON_parse (cleanContent content) = None
        \<longrightarrow> generatePersonalizedStudyPlan fetch chaptersData chapterId dr userProgress
              = (Inr (fallbackStudyPlan chapterId dr),
                 [Fetch (chatRequest (studyPlanPrompt ch chapterId dr)),
                  ConsoleError (str ''Error generating study plan:'') SyntaxError]))
     \<and> (deliveredContent
            (fetch (chatRequest (studyContentPrompt chapterName userLevel userWeaknesses userStrengths)))
            = Some content'
          \<and> JSON_parse (cleanContent content') = None
        \<longrightarrow> generatePersonalizedStudyContent fetch chapterId chapterName userLevel
                userWeaknesses userStrengths
              = (fallbackStudyContent chapterName userWeaknesses userStrengths,
                 [Fetch (chatRequest
                    (studyContentPrompt chapterName userLevel userWeaknesses userStrengths)),
                  ConsoleError (str ''Error parsing study content JSON:'') SyntaxError]))
     \<and> (fst (generatePersonalizedStudyPlan fetch chaptersData chapterId dr userProgress) = Inl e
        \<longrightarrow> e = ChapterNotFound \<and> find (\<lambda>c. id' c = chapterId) chaptersData = None)"
proof (intro conjI impI)
  assume a: "find (\<lambda>c. id' c = chapterId) chaptersData = Some ch
     \<and> deliveredContent (fetch (chatRequest (studyPlanPrompt ch chapterId dr))) = Some content
     \<and> JSON_parse (cleanContent content) = None"
  then show "generatePersonalizedStudyPlan fetch chaptersData chapterId dr userProgress
      = (Inr (fallbackStudyPlan chapterId dr),
         [Fetch (chatRequest (studyPlanPrompt ch chapterId dr)),
          ConsoleError (str ''Error generating study plan:'') SyntaxError])"
    using plan_fallback_when_unparsable [where fetch = fetch] by blast
next
  assume "deliveredContent
       (fetch (chatRequest (studyContentPrompt chapterName userLevel userWeaknesses userStrengths)))
       = Some content'
     \<and> JSON_parse (cleanContent content') = None"
  then show "generatePersonalizedStudyContent fetch chapterId chapterName userLevel
        userWeaknesses userStrengths
      = (fallbackStudyContent chapterName userWeaknesses userStrengths,
         [Fetch (chatRequest
            (studyContentPrompt chapterName userLevel userWeaknesses userStrengths)),
          ConsoleError (str ''Error parsing study content JSON:'') SyntaxError])"
    using content_fallback_when_unparsable [where fetch = fetch] by blast
next
  assume "fst (generatePersonalizedStudyPlan fetch chaptersData chapterId dr userProgress) = Inl e"
  then show "e = ChapterNotFound" and "find (\<lambda>c. id' c = chapterId) chaptersData = None"
    using plan_error_only_not_found by blast+
qed

theorem invalid_structured_content_is_absorbed_witness:
  "find (\<lambda>c. id' c = str ''ch1'') [exampleChapter] = Some exampleChapter
   \<and> deliveredContent (constantEndpoint (Response True (Some (envelope chatter)))
        (chatRequest (studyPlanPrompt exampleChapter (str ''ch1'') exampleDiagnostic))) = Some chatter
   \<and> deliveredContent (constantEndpoint (Response True (Some (envelope chatter)))
        (chatRequest (studyContentPrompt (str ''Division'') Beginner [] []))) = Some chatter
   \<and> JSON_parse (cleanContent chatter) = None
   \<and> generatePersonalizedStudyPlan (constantEndpoint (Response True (Some (envelope chatter))))
        [exampleChapter] (str ''ch1'') exampleDiagnostic JNull
      = (Inr (fallbackStudyPlan (str ''ch1'') exampleDiagnostic),
         [Fetch (chatRequest (studyPlanPrompt exampleChapter (str ''ch1'') exampleDiagnostic)),
          ConsoleError (str ''Error generating study plan:'') SyntaxError])
   \<and> generatePersonalizedStudyContent (constantEndpoint (Response True (Some (envelope chatter))))
        (str ''ch1'') (str ''Division'') Beginner [] []
      = (fallbackStudyContent (str ''Division'') [] [],
         [Fetch (chatRequest (studyContentPrompt (str ''Division'') Beginner [] [])),
          ConsoleError (str ''Error parsing study content JSON:'') SyntaxError])
   \<and> fst (generatePersonalizedStudyPlan (constantEndpoint (Response True (Some (envelope chatter))))
        [exampleChapter] (str ''ch9'') exampleDiagnostic JNull) = Inl ChapterNotFound
   \<and> find (\<lambda>c. id' c = str ''ch9'') [exampleChapter] = None"
proof -
  let ?fetch = "constantEndpoint (Response True (Some (envelope chatter)))"
  have found: "find (\<lambda>c. id' c = str ''ch1'') [exampleChapter] = Some exampleChapter"
    by (simp add: exampleChapter_def)
  have raised: "fst (generatePersonalizedStudyPlan ?fetch [exampleChapter] (str ''ch9'')
      exampleDiagnostic JNull) = Inl ChapterNotFound"
    by (simp add: generatePersonalizedStudyPlan_def exampleChapter_def str_def)
  note known = invalid_structured_content_is_absorbed
    [where fetch = ?fetch and chaptersData = "[exampleChapter]" and chapterId = "str ''ch1''"
       and ch = exampleChapter and dr = exampleDiagnostic and content = chatter
       and userProgress = JNull and chapterName = "str ''Division''" and userLevel = Beginner
       and userWeaknesses = "[]" and userStrengths = "[]" and content' = chatter]
  note unknown = invalid_structured_content_is_absorbed
    [where fetch = ?fetch and chaptersData = "[exampleChapter]" and chapterId = "str ''ch9''"
       and dr = exampleDiagnostic and userProgress = JNull and e = ChapterNotFound]
  show ?thesis
    using found raised chatter_not_json delivered_constant [OF chatter_nonempty] known unknown
    by simp
qed

section \<open>The shape of the returned plan\<close>

text \<open>
  Claim C4 as stated, that on every path the returned plan has a positive estimated time
  and one of the three difficulty levels, fails on the generated path: the parsed value is
  returned as it is. The endpoint below delivers
  \<open>{"estimated_time": 0, "difficulty_level": "expert"}\<close>, and that is what the caller gets.
\<close>

theorem study_plan_generated_path_unvalidated:
  "fst (generatePersonalizedStudyPlan (constantEndpoint (Response True (Some (envelope lenientPlan))))
        [exampleChapter] (str ''ch1'') exampleDiagnostic JNull)
     = Inr (JObject [(str ''estimated_time'', JNumber 0),
                     (str ''difficulty_level'', JString (str ''expert''))])
   \<and> \<not> hasPositiveTime (JObject [(str ''estimated_time'', JNumber 0),
                     (str ''difficulty_level'', JString (str ''expert''))])
   \<and> \<not> hasKnownDifficulty (JObject [(str ''estimated_time'', JNumber 0),
                     (str ''difficulty_level'', JString (str ''expert''))])"
proof -
  have found: "find (\<lambda>c. id' c = str ''ch1'') [exampleChapter] = Some exampleChapter"
    by (simp add: exampleChapter_def)
  have "generatePersonalizedStudyPlan (constantEndpoint (Response True (Some (envelope lenientPlan))))
        [exampleChapter] (str ''ch1'') exampleDiagnostic JNull
     = (Inr (JObject [(str ''estimated_time'', JNumber 0),
                     (str ''difficulty_level'', JString (str ''expert''))]),
        [Fetch (chatRequest (studyPlanPrompt exampleChapter (str ''ch1'') exampleDiagnostic))])"
    by (rule plan_generated_when_parsable
          [where fetch = "constantEndpoint (Response True (Some (envelope lenientPlan)))",
           OF found delivered_constant [OF lenientPlan_nonempty] lenientPlan_parses])
  moreover have "\<not> hasPositiveTime (JObject [(str ''estimated_time'', JNumber 0),
                     (str ''difficulty_level'', JString (str ''expert''))])"
    by (simp add: hasPositiveTime_def field_def optionalMember_def str_def)
  moreover have "\<not> hasKnownDifficulty (JObject [(str ''estimated_time'', JNumber 0),
                     (str ''difficulty_level'', JString (str ''expert''))])"
    by (simp add: hasKnownDifficulty_def field_def optionalMember_def str_def)
  ultimately show ?thesis by simp
qed

text \<open>
  Claim C4, amended. For a chapter id the catalogue knows: when no value is generated (the
  endpoint call fails or the delivered content is not valid JSON) the operation returns the
  fallback plan, whose estimated time is positive and whose difficulty level is one of
  \<open>beginner\<close>, \<open>intermediate\<close>, \<open>advanced\<close>; when a value is generated, the operation
  returns that value unvalidated.
\<close>

theorem study_plan_valid_on_fallback_path:
  assumes "find (\<lambda>c. id' c = chapterId) chaptersData = Some ch"
  shows "(generatedValue (fetch (chatRequest (studyPlanPrompt ch chapterId dr))) = None
          \<longrightarrow> fst (generatePersonalizedStudyPlan fetch chaptersData chapterId dr userProgress)
                = Inr (fallbackStudyPlan chapterId dr)
              \<and> hasPositiveTime (fallbackStudyPlan chapterId dr)
              \<and> hasKnownDifficulty (fallbackStudyPlan chapterId dr))
       \<and> (generatedValue (fetch (chatRequest (studyPlanPrompt ch chapterId dr))) = Some v
          \<longrightarrow> fst (generatePersonalizedStudyPlan fetch chaptersData chapterId dr userProgress)
                = Inr v)"
proof (intro conjI impI)
  let ?out = "fetch (chatRequest (studyPlanPrompt ch chapterId dr))"
  assume none: "generatedValue ?out = None"
  show "fst (generatePersonalizedStudyPlan fetch chaptersData chapterId dr userProgress)
      = Inr (fallbackStudyPlan chapterId dr)"
  proof (cases "deliveredContent ?out")
    case None
    then show ?thesis
      using plan_fallback_when_failed [where fetch = fetch, OF assms] by simp
  next
    case (Some content)
    with none have "JSON_parse (cleanContent content) = None"
      by (simp add: generatedValue_def)
    with Some show ?thesis
      using plan_fallback_when_unparsable [where fetch = fetch, OF assms] by simp
  qed
next
  show "hasPositiveTime (fallbackStudyPlan chapterId dr)"
    and "hasKnownDifficulty (fallbackStudyPlan chapterId dr)"
    by (rule fallback_valid)+
next
  let ?out = "fetch (chatRequest (studyPlanPrompt ch chapterId dr))"
  assume "generatedValue ?out = Some v"
  then obtain content where "deliveredContent ?out = Some content"
    and "JSON_parse (cleanContent content) = Some v"
    by (auto simp: generatedValue_def split: option.splits)
  then show "fst (generatePersonalizedStudyPlan fetch chaptersData chapterId dr userProgress) = Inr v"
    using plan_generated_when_parsable [where fetch = fetch, OF assms] by simp
qed

theorem study_plan_valid_on_fallback_path_witness:
  "find (\<lambda>c. id' c = str ''ch1'') [exampleChapter] = Some exampleChapter
   \<and> generatedValue (constantEndpoint Rejected
        (chatRequest (studyPlanPrompt exampleChapter (str ''ch1'') exampleDiagnostic))) = None
   \<and> fst (generatePersonalizedStudyPlan (constantEndpoint Rejected) [exampleChapter] (str ''ch1'')
        exampleDiagnostic JNull) = Inr (fallbackStudyPlan (str ''ch1'') exampleDiagnostic)
   \<and> hasPositiveTime (fallbackStudyPlan (str ''ch1'') exampleDiagnostic)
   \<and> hasKnownDifficulty (fallbackStudyPlan (str ''ch1'') exampleDiagnostic)
   \<and> generatedValue (constantEndpoint (Response True (Some (envelope lenientPlan)))
        (chatRequest (studyPlanPrompt exampleChapter (str ''ch1'') exampleDiagnostic)))
      = Some (JObject [(str ''estimated_time'', JNumber 0),
                       (str ''difficulty_level'', JString (str ''expert''))])
   \<and> fst (generatePersonalizedStudyPlan (constantEndpoint (Response True (Some (envelope lenientPlan))))
        [exampleChapter] (str ''ch1'') exampleDiagnostic JNull)
      = Inr (JObject [(str ''estimated_time'', JNumber 0),
                      (str ''difficulty_level'', JString (str ''expert''))])"
proof -
  have found: "find (\<lambda>c. id' c = str ''ch1'') [exampleChapter] = Some exampleChapter"
    by (simp add: exampleChapter_def)
  note down = study_plan_valid_on_fallback_path
    [where fetch = "constantEndpoint Rejected" and dr = exampleDiagnostic
       and userProgress = JNull, OF found]
  note up = study_plan_valid_on_fallback_path
    [where fetch = "constantEndpoint (Response True (Some (envelope lenientPlan)))"
       and dr = exampleDiagnostic and userProgress = JNull
       and v = "JObject [(str ''estimated_time'', JNumber 0),
                         (str ''difficulty_level'', JString (str ''expert''))]", OF found]
  show ?thesis
    using found generatedValue_rejected generatedValue_lenient down up
    by simp
qed

section \<open>Code fences\<close>




section \<open>Prompts\<close>

text \<open>
  Claim C7 at the input where it fails: with empty \<open>strengths\<close>, \<open>weaknesses\<close> and \<open>gaps\<close>
  the prompt of \<open>generatePersonalizedStudyPlan\<close> has nothing after the three labels, while
  the prompt of \<open>generatePersonalizedStudyContent\<close> puts \<open>Building foundation\<close> and
  \<open>None identified\<close> in the place of its empty lists.
\<close>

theorem study_plan_prompt_has_no_placeholder:
  \<open>studyPlanPrompt exampleChapter (str ''ch1'') emptyDiagnostic = unlines
     [str ''Create a personalized study plan for this student based on their diagnostic results.'',
      str '''',
      str ''Chapter: Division'',
      str ''Topics: Long division'',
      str ''Student's Strengths: '',
      str ''Student's Weaknesses: '',
      str ''Student's Gaps: '',
      str ''Diagnostic Score: 3/10'',
      str '''',
      str ''Generate a study plan as JSON with this structure:'',
      str ''{'',
      str ''  "chapter_id": "ch1",'',
      str ''  "prerequisites": ["concept1", "concept2"],'',
      str ''  "recommended_practice": ["practice1", "practice2", "practice3"],'',
      str ''  "estimated_time": 120,'',
      str ''  "difficulty_level": "beginner"'',
      str ''}'',
      str '''',
      str ''Prerequisites should be concepts the student needs to review first.'',
      str ''Recommended practice should be specific, actionable study activities.'',
      str ''Estimated time should be in minutes for completing this chapter.'',
      str ''Difficulty level should be "beginner", "intermediate", or "advanced" based on student's readiness.'',
      str '''',
      str ''Return only the JSON object.'']
   \<and> studyContentPrompt (str ''Division'') Beginner [] [] = unlines
     [str ''You are a friendly math mentor creating personalized study content for a student.'',
      str '''',
      str ''Chapter: Division'',
      str ''Student Level: beginner'',
      str ''Student's Strengths: Building foundation'',
      str ''Student's Weaknesses: None identified'',
      str '''',
      str ''Create personalized study content for 4 key topics in this chapter. Return as JSON object:'',
      str ''{'',
      str ''  "Introduction": "Engaging introduction content...",'',
      str ''  "Core Concepts": "Core concepts explanation...",'',
      str ''  "Problem Solving": "Problem solving strategies...",'',
      str ''  "Practice & Review": "Practice and review guidance..."'',
      str ''}'',
      str '''',
      str ''Each content section should:'',
      str ''- Be 2-3 paragraphs long'',
      str ''- Use encouraging, mentor-like tone'',
      str ''- Address student's specific level and needs'',
      str ''- Include practical examples and analogies'',
      str ''- Use emojis naturally'',
      str ''- Build confidence while being educational'',
      str ''- Reference their strengths and help with weaknesses'',
      str '''',
      str ''Return only the JSON object.'']\<close>
proof -
  have three: "showInt 3 = str ''3''" and ten: "showInt 10 = str ''10''"
    by code_simp+
  show ?thesis
    by (simp add: studyPlanPrompt_def studyContentPrompt_def exampleChapter_def
        emptyDiagnostic_def three ten str_def orElse_def unlines_def)
qed

section \<open>The free-text operations\<close>

text \<open>
  Claim C8 as stated fails: \<open>generateChapterExplanation\<close> and \<open>generateSmartNotification\<close>
  trim the content and strip no code fence. On the content \<open>```hi```\<close> both return it
  unchanged, while the cleaned text is \<open>hi\<close>.
\<close>

theorem free_text_keeps_code_fences:
  "fst (generateChapterExplanation (constantEndpoint (Response True (Some (envelope fencedGreeting))))
          (str ''ch1'') (str ''Division'') Beginner) = str ''```hi```''
   \<and> fst (generateSmartNotification (constantEndpoint (Response True (Some (envelope fencedGreeting))))
          (Abs_random01 0) JNull []) = str ''```hi```''
   \<and> cleanContent fencedGreeting = str ''hi''
   \<and> fst (generateChapterExplanation (constantEndpoint (Response True (Some (envelope fencedGreeting))))
          (str ''ch1'') (str ''Division'') Beginner) \<noteq> cleanContent fencedGreeting"
  using explanation_when_delivered
          [where fetch = "constantEndpoint (Response True (Some (envelope fencedGreeting)))",
           OF delivered_constant [OF fencedGreeting_nonempty]]
        notification_when_delivered
          [where fetch = "constantEndpoint (Response True (Some (envelope fencedGreeting)))",
           OF delivered_constant [OF fencedGreeting_nonempty]]
  by (simp add: trim_fencedGreeting clean_fencedGreeting str_def)

text \<open>
  Claim C8, amended. When the endpoint delivers content, each free-text operation returns
  that content with leading and trailing white space trimmed, and nothing else is done to
  it: no code fence is stripped and nothing is parsed.
\<close>

theorem free_text_returns_trimmed_content:
  "(deliveredContent (fetch (chatRequest (explanationPrompt topic studentLevel))) = Some content
      \<longrightarrow> generateChapterExplanation fetch chapterId topic studentLevel
            = (trim content, [Fetch (chatRequest (explanationPrompt topic studentLevel))]))
   \<and> (deliveredContent (fetch (chatRequest (notificationPrompt recentActivity))) = Some content'
      \<longrightarrow> generateSmartNotification fetch random userProgress recentActivity
            = (trim content', [Fetch (chatRequest (notificationPrompt recentActivity))]))"
  using explanation_when_delivered [where fetch = fetch]
    notification_when_delivered [where fetch = fetch]
  by blast

theorem free_text_returns_trimmed_content_witness:
  "deliveredContent (constantEndpoint (Response True (Some (envelope paddedGreeting)))
      (chatRequest (explanationPrompt (str ''Division'') Beginner))) = Some paddedGreeting
   \<and> deliveredContent (constantEndpoint (Response True (Some (envelope paddedGreeting)))
      (chatRequest (notificationPrompt []))) = Some paddedGreeting
   \<and> generateChapterExplanation (constantEndpoint (Response True (Some (envelope paddedGreeting))))
        (str ''ch1'') (str ''Division'') Beginner
      = (str ''Keep going!'', [Fetch (chatRequest (explanationPrompt (str ''Division'') Beginner))])
   \<and> generateSmartNotification (constantEndpoint (Response True (Some (envelope paddedGreeting))))
        (Abs_random01 0) JNull []
      = (str ''Keep going!'', [Fetch (chatRequest (notificationPrompt []))])"
  using free_text_returns_trimmed_content
          [where fetch = "constantEndpoint (Response True (Some (envelope paddedGreeting)))"
             and topic = "str ''Division''" and studentLevel = Beginner
             and recentActivity = "[]" and content = paddedGreeting and content' = paddedGreeting
             and chapterId = "str ''ch1''" and random = "Abs_random01 0" and userProgress = JNull]
        delivered_constant [OF paddedGreeting_nonempty]
  by (simp add: trim_paddedGreeting)

section \<open>The notification fallback\<close>

text \<open>
  Claim C9. When the endpoint call of \<open>generateSmartNotification\<close> fails, the result is one
  of the four distinct strings of the fallback pool, and the string at index \<open>i\<close> is the
  result exactly when \<open>Math.random()\<close> falls in \<open>[i/4, (i+1)/4)\<close>: the four strings share the
  unit interval in equal parts.
\<close>

theorem notification_fallback_from_pool:
  assumes "deliveredContent (fetch (chatRequest (notificationPrompt recentActivity))) = None"
  shows "fst (generateSmartNotification fetch random userProgress recentActivity)
           \<in> set fallbackNotifications
       \<and> length fallbackNotifications = 4
       \<and> distinct fallbackNotifications
       \<and> (\<forall>i < 4.
            fst (generateSmartNotification fetch random userProgress recentActivity)
               = fallbackNotifications ! i
            \<longleftrightarrow> of_nat i / 4 \<le> Rep_random01 random \<and> Rep_random01 random < (of_nat i + 1) / 4)"
proof -
  have result: "fst (generateSmartNotification fetch random userProgress recentActivity)
      = fallbackNotifications ! randomIndex random 4"
    using notification_fallback_when_failed [where fetch = fetch, OF assms]
    by (simp add: pickFallbackNotification_def length_fallbackNotifications)
  have "fallbackNotifications ! randomIndex random 4 = fallbackNotifications ! i
      \<longleftrightarrow> of_nat i / 4 \<le> Rep_random01 random \<and> Rep_random01 random < (of_nat i + 1) / 4"
    if "i < 4" for i
  proof -
    have "fallbackNotifications ! randomIndex random 4 = fallbackNotifications ! i
        \<longleftrightarrow> randomIndex random 4 = i"
      using that randomIndex_less [of random] distinct_fallbackNotifications
      by (simp add: nth_eq_iff_index_eq length_fallbackNotifications)
    then show ?thesis by (simp add: randomIndex_iff)
  qed
  moreover have "fallbackNotifications ! randomIndex random 4 \<in> set fallbackNotifications"
    using randomIndex_less [of random] by (simp add: length_fallbackNotifications)
  ultimately show ?thesis
    using result length_fallbackNotifications distinct_fallbackNotifications by simp
qed

theorem notification_fallback_from_pool_witness:
  "deliveredContent (constantEndpoint Rejected (chatRequest (notificationPrompt []))) = None
   \<and> fst (generateSmartNotification (constantEndpoint Rejected) (Abs_random01 (3 / 10)) JNull [])
      = fallbackNotifications ! 1
   \<and> fallbackNotifications ! 1 \<in> set fallbackNotifications
   \<and> (1 / 4 :: rat) \<le> 3 / 10 \<and> (3 / 10 :: rat) < 2 / 4"
proof -
  have failed: "deliveredContent (constantEndpoint Rejected (chatRequest (notificationPrompt [])))
      = None"
    by (simp add: constantEndpoint_def deliveredContent_def)
  show ?thesis
    using failed
      notification_fallback_from_pool
        [where fetch = "constantEndpoint Rejected" and random = "Abs_random01 (3 / 10)"
           and userProgress = JNull, OF failed]
    by (auto simp: Rep_three_tenths)
qed

text \<open>
  Claim C10. Every string of the fallback pool has fewer than 100 code units, so on the
  fallback path the notification is under 100 characters.
\<close>

theorem notification_fallback_under_100:
  "(\<forall>s \<in> set fallbackNotifications. length s < 100)
   \<and> (deliveredContent (fetch (chatRequest (notificationPrompt recentActivity))) = None
      \<longrightarrow> length (fst (generateSmartNotification fetch random userProgress recentActivity)) < 100)"
proof -
  have all: "\<forall>s \<in> set fallbackNotifications. length s < 100"
  proof -
    have "\<forall>n \<in> set (map length fallbackNotifications). n < 100"
      unfolding pool_lengths by simp
    then show ?thesis by simp
  qed
  moreover have "length (fst (generateSmartNotification fetch random userProgress recentActivity)) < 100"
    if "deliveredContent (fetch (chatRequest (notificationPrompt recentActivity))) = None"
    using notification_fallback_when_failed [where fetch = fetch, OF that] pick_in_pool [of random] all
    by simp
  ultimately show ?thesis by blast
qed

theorem notification_fallback_under_100_witness:
  "fallbackNotifications ! 3 \<in> set fallbackNotifications
   \<and> length (fallbackNotifications ! 3) = 49
   \<and> deliveredContent (constantEndpoint (Response False None) (chatRequest (notificationPrompt [])))
      = None
   \<and> length (fst (generateSmartNotification (constantEndpoint (Response False None))
        (Abs_random01 (3 / 10)) JNull [])) < 100"
proof -
  have failed: "deliveredContent (constantEndpoint (Response False None)
      (chatRequest (notificationPrompt []))) = None"
    by (simp add: constantEndpoint_def deliveredContent_def)
  have member: "fallbackNotifications ! 3 \<in> set fallbackNotifications"
    by (simp add: length_fallbackNotifications)
  have len: "length (fallbackNotifications ! 3) = 49"
    using pool_lengths by (simp add: fallbackNotifications_def)
  show ?thesis
    using failed member len
      notification_fallback_under_100
        [where fetch = "constantEndpoint (Response False None)" and recentActivity = "[]"
           and random = "Abs_random01 (3 / 10)" and userProgress = JNull]
    by simp
qed

end
